theory Spec2Isabelle
  imports Main "HOL-Library.Word" "HOL-Library.Sublist"
begin

unbundle bit_operations_syntax

section \<open>The POSIX handle of AFIO: lifecycle, caching mode, append-only, current path\<close>

text \<open>
  The development embeds \<^verbatim>\<open>include/afio/v2.0/detail/impl/posix/handle.ipp\<close>: the
  destructor, \<^verbatim>\<open>current_path\<close> (its Linux branch), \<^verbatim>\<open>close\<close>, \<^verbatim>\<open>clone\<close>,
  \<^verbatim>\<open>set_append_only\<close> and \<^verbatim>\<open>set_kernel_caching\<close>. Every member function that
  mutates the handle takes the handle and the operating system's state and returns its
  result together with the handle and the state afterwards. A \<^verbatim>\<open>result<T>\<close> is the sum
  \<open>error_code + T\<close>, with \<open>Inl\<close> the error.
\<close>

subsection \<open>Error codes\<close>

datatype category = system_category | generic_category

type_synonym error_code = "int \<times> category"

text \<open>The values of \<^verbatim>\<open><errno.h>\<close> on Linux that the operating system model reports.\<close>

definition ENOENT :: int where "ENOENT = 2"
definition EBADF :: int where "EBADF = 9"
definition ENOMEM :: int where "ENOMEM = 12"
definition EMFILE :: int where "EMFILE = 24"

subsection \<open>The open-file attributes of \<^verbatim>\<open><fcntl.h>\<close>\<close>

text \<open>
  The file status flags are a C \<^verbatim>\<open>int\<close>, here a 32-bit word. The constants are those of
  Linux (asm-generic): \<^verbatim>\<open>O_APPEND\<close> is 02000, \<^verbatim>\<open>O_DSYNC\<close> 010000, \<^verbatim>\<open>O_DIRECT\<close> 040000 and
  \<^verbatim>\<open>O_SYNC\<close> 04010000, which contains the bit of \<^verbatim>\<open>O_DSYNC\<close>. \<^verbatim>\<open>O_DSYNC\<close> is defined, so
  the \<^verbatim>\<open>#ifdef O_DSYNC\<close> branches of the source are the ones compiled.
\<close>

definition O_APPEND :: "32 word" where "O_APPEND = 0x400"
definition O_DSYNC :: "32 word" where "O_DSYNC = 0x1000"
definition O_DIRECT :: "32 word" where "O_DIRECT = 0x4000"
definition O_SYNC :: "32 word" where "O_SYNC = 0x101000"

subsection \<open>The operating system\<close>

text \<open>
  The system calls the handle consumes, as the list of calls a process has issued
  records them.
\<close>

datatype syscall =
    Fcntl_getfl int
  | Fcntl_setfl int "32 word"
  | Fsync int
  | Close int
  | Dup int
  | Readlink string nat

text \<open>
  The state of the operating system as far as the handle sees it. A descriptor refers to
  an open file description (\<open>fdtab\<close>), which carries the file status flags
  (\<open>status\<close>); duplicated descriptors share one description. \<open>links\<close> gives the
  target of every symbolic link, those of \<^verbatim>\<open>/proc/self/fd\<close> included. \<open>nofile\<close> is the
  limit on descriptor numbers. \<open>faults\<close> is the schedule of failures the environment
  injects: \<open>faults k n c = Some e\<close> makes the call \<open>c\<close> fail with \<open>e\<close> when it
  is the \<open>n\<close>-th call issued. \<open>heap_limit\<close> is the largest allocation that succeeds.
  \<open>errno\<close> is the C variable and \<open>trace\<close> the calls issued so far, oldest first.
\<close>

record kernel =
  fdtab :: "int \<rightharpoonup> nat"
  status :: "nat \<Rightarrow> 32 word"
  links :: "string \<rightharpoonup> string"
  nofile :: nat
  faults :: "nat \<Rightarrow> syscall \<Rightarrow> int option"
  heap_limit :: nat
  errno :: int
  trace :: "syscall list"

text \<open>Every call is recorded; a failing call sets \<open>errno\<close> and returns -1.\<close>

definition enter :: "kernel \<Rightarrow> syscall \<Rightarrow> kernel" where
  "enter k c = k\<lparr>trace := trace k @ [c]\<rparr>"

definition fault :: "kernel \<Rightarrow> syscall \<Rightarrow> int option" where
  "fault k c = faults k (length (trace k)) c"

text \<open>\<^verbatim>\<open>fcntl(fd, F_GETFL)\<close>: the status flags of the description behind \<open>fd\<close>.\<close>

definition sys_fcntl_getfl :: "kernel \<Rightarrow> int \<Rightarrow> 32 word \<times> kernel" where
  "sys_fcntl_getfl k fd =
     (let k1 = enter k (Fcntl_getfl fd) in
      case fault k (Fcntl_getfl fd) of
        Some e \<Rightarrow> (- 1, k1\<lparr>errno := e\<rparr>)
      | None \<Rightarrow>
          (case fdtab k fd of
             None \<Rightarrow> (- 1, k1\<lparr>errno := EBADF\<rparr>)
           | Some d \<Rightarrow> (status k d, k1)))"

text \<open>\<^verbatim>\<open>fcntl(fd, F_SETFL, attribs)\<close>: the description takes the flags given.\<close>

definition sys_fcntl_setfl :: "kernel \<Rightarrow> int \<Rightarrow> 32 word \<Rightarrow> int \<times> kernel" where
  "sys_fcntl_setfl k fd attribs =
     (let k1 = enter k (Fcntl_setfl fd attribs) in
      case fault k (Fcntl_setfl fd attribs) of
        Some e \<Rightarrow> (- 1, k1\<lparr>errno := e\<rparr>)
      | None \<Rightarrow>
          (case fdtab k fd of
             None \<Rightarrow> (- 1, k1\<lparr>errno := EBADF\<rparr>)
           | Some d \<Rightarrow> (0, k1\<lparr>status := (status k)(d := attribs)\<rparr>)))"

text \<open>\<^verbatim>\<open>fsync(fd)\<close>: the durability flush.\<close>

definition sys_fsync :: "kernel \<Rightarrow> int \<Rightarrow> int \<times> kernel" where
  "sys_fsync k fd =
     (let k1 = enter k (Fsync fd) in
      case fault k (Fsync fd) of
        Some e \<Rightarrow> (- 1, k1\<lparr>errno := e\<rparr>)
      | None \<Rightarrow>
          (case fdtab k fd of
             None \<Rightarrow> (- 1, k1\<lparr>errno := EBADF\<rparr>)
           | Some d \<Rightarrow> (0, k1)))"

text \<open>\<^verbatim>\<open>close(fd)\<close>: the descriptor leaves the table. A failed close leaves it there.\<close>

definition sys_close :: "kernel \<Rightarrow> int \<Rightarrow> int \<times> kernel" where
  "sys_close k fd =
     (let k1 = enter k (Close fd) in
      case fault k (Close fd) of
        Some e \<Rightarrow> (- 1, k1\<lparr>errno := e\<rparr>)
      | None \<Rightarrow>
          (case fdtab k fd of
             None \<Rightarrow> (- 1, k1\<lparr>errno := EBADF\<rparr>)
           | Some d \<Rightarrow> (0, k1\<lparr>fdtab := (fdtab k)(fd := None)\<rparr>)))"

text \<open>
  \<^verbatim>\<open>dup(fd)\<close>: the lowest free descriptor number below the limit comes to refer to the
  description of \<open>fd\<close>.
\<close>

definition sys_dup :: "kernel \<Rightarrow> int \<Rightarrow> int \<times> kernel" where
  "sys_dup k fd =
     (let k1 = enter k (Dup fd) in
      case fault k (Dup fd) of
        Some e \<Rightarrow> (- 1, k1\<lparr>errno := e\<rparr>)
      | None \<Rightarrow>
          (case fdtab k fd of
             None \<Rightarrow> (- 1, k1\<lparr>errno := EBADF\<rparr>)
           | Some d \<Rightarrow>
               (case find (\<lambda>n. fdtab k n = None) (map int [0..<nofile k]) of
                  None \<Rightarrow> (- 1, k1\<lparr>errno := EMFILE\<rparr>)
                | Some n \<Rightarrow> (n, k1\<lparr>fdtab := (fdtab k)(n \<mapsto> d)\<rparr>))))"

text \<open>
  \<^verbatim>\<open>readlink(path, buf, bufsiz)\<close>: the target of the link, cut to the size of the
  buffer; the call returns the number of bytes placed and the bytes.
\<close>

definition sys_readlink :: "kernel \<Rightarrow> string \<Rightarrow> nat \<Rightarrow> (int \<times> string) \<times> kernel" where
  "sys_readlink k path bufsiz =
     (let k1 = enter k (Readlink path bufsiz) in
      case fault k (Readlink path bufsiz) of
        Some e \<Rightarrow> ((- 1, []), k1\<lparr>errno := e\<rparr>)
      | None \<Rightarrow>
          (case links k path of
             None \<Rightarrow> ((- 1, []), k1\<lparr>errno := ENOENT\<rparr>)
           | Some t \<Rightarrow> ((int (length (take bufsiz t)), take bufsiz t), k1)))"

subsection \<open>The handle\<close>

text \<open>
  Modelled from the spec: \<^verbatim>\<open>native_handle_type\<close> and its \<^verbatim>\<open>disposition\<close> bits, whose
  declaration (\<^verbatim>\<open>native_handle_type.hpp\<close>) is not among the sources. The spec gives the
  bits by name, so the bitfield is the set of the bits that are on: \<^verbatim>\<open>b |= x\<close> is
  \<open>insert x b\<close> and \<^verbatim>\<open>b &= ~x\<close> is \<open>b - {x}\<close>. The OS resource is the integer file
  descriptor; the default-constructed value is the empty one, which is falsy.
\<close>

datatype disposition =
    file_disposition | directory | symlink | pipe | socket | multiplexer | aligned_io | append_only
  | nonblocking | cache_metadata | cache_reads | cache_writes | cache_temporary
  | safety_fsyncs_disposition | child_close_executed

record native_handle_type =
  behaviour :: "disposition set"
  fd :: int

definition native_handle_type :: native_handle_type where
  "native_handle_type = \<lparr>behaviour = {}, fd = - 1\<rparr>"

definition is_valid :: "native_handle_type \<Rightarrow> bool" where
  "is_valid nh = (fd nh \<noteq> - 1)"

text \<open>
  Modelled from the spec: the \<^verbatim>\<open>caching\<close> and \<^verbatim>\<open>flag\<close> enumerations of
  \<^verbatim>\<open>handle.hpp\<close>, which is not among the sources.
\<close>

datatype caching =
    unchanged | none | only_metadata | reads | reads_and_metadata | all
  | safety_fsyncs | temporary

datatype flag =
    disable_safety_unlinks | multiplexable | unlink_on_first_close
  | win_disable_unlink_emulation

text \<open>The members \<^verbatim>\<open>_v\<close>, \<^verbatim>\<open>_caching\<close> and \<^verbatim>\<open>_flags\<close> of \<^verbatim>\<open>handle\<close>.\<close>

record handle =
  h_v :: native_handle_type
  h_caching :: caching
  h_flags :: "flag set"

text \<open>
  Modelled from the spec: \<^verbatim>\<open>are_safety_fsyncs_issued\<close>, a member defined in \<^verbatim>\<open>handle.hpp\<close>,
  which is not among the sources. The spec: it "returns true iff caching mode is
  \<^verbatim>\<open>safety_fsyncs\<close>".
\<close>

definition are_safety_fsyncs_issued :: "handle \<Rightarrow> bool" where
  "are_safety_fsyncs_issued h = (h_caching h = safety_fsyncs)"

subsection \<open>\<^verbatim>\<open>handle::close\<close>\<close>

definition close :: "handle \<Rightarrow> kernel \<Rightarrow> (error_code + unit) \<times> handle \<times> kernel" where
  "close h k =
     (if is_valid (h_v h) then
        (if are_safety_fsyncs_issued h then
           (let (r, k1) = sys_fsync k (fd (h_v h)) in
            if r = - 1 then (Inl (errno k1, system_category), h, k1)
            else
              (let (r2, k2) = sys_close k1 (fd (h_v h)) in
               if r2 = - 1 then (Inl (errno k2, system_category), h, k2)
               else (Inr (), h\<lparr>h_v := native_handle_type\<rparr>, k2)))
         else
           (let (r2, k2) = sys_close k (fd (h_v h)) in
            if r2 = - 1 then (Inl (errno k2, system_category), h, k2)
            else (Inr (), h\<lparr>h_v := native_handle_type\<rparr>, k2)))
      else (Inr (), h, k))"

subsection \<open>\<^verbatim>\<open>handle::~handle\<close>\<close>

text \<open>
  The destructor either returns, and the process goes on, or calls \<^verbatim>\<open>abort()\<close>, and the
  process is over. Both outcomes carry the state of the operating system.
  \<^verbatim>\<open>AFIO_LOG_FATAL\<close> writes to the log only.
\<close>

datatype exit = Destroyed kernel | Aborted kernel

definition handle_destructor :: "handle \<Rightarrow> kernel \<Rightarrow> exit" where
  "handle_destructor h k =
     (if is_valid (h_v h) then
        (let (ret, h1, k1) = close h k in
         if isl ret then Aborted k1 else Destroyed k1)
      else Destroyed k)"

subsection \<open>\<^verbatim>\<open>handle::clone\<close>\<close>

text \<open>
  \<^verbatim>\<open>clone\<close> is a const member: it returns its result and the state of the operating
  system, and there is no handle to return changed. When \<^verbatim>\<open>dup\<close> fails, the handle
  under construction is destroyed holding the descriptor -1, which is the empty one, so
  its destructor closes nothing.
\<close>

definition clone :: "handle \<Rightarrow> kernel \<Rightarrow> (error_code + handle) \<times> kernel" where
  "clone h k =
     (let ret = \<lparr>h_v = native_handle_type, h_caching = h_caching h, h_flags = h_flags h\<rparr>;
          ret = ret\<lparr>h_v := (h_v ret)\<lparr>behaviour := behaviour (h_v h)\<rparr>\<rparr>;
          (newfd, k1) = sys_dup k (fd (h_v h));
          ret = ret\<lparr>h_v := (h_v ret)\<lparr>fd := newfd\<rparr>\<rparr>
      in if fd (h_v ret) = - 1 then (Inl (errno k1, system_category), k1)
         else (Inr ret, k1))"

subsection \<open>\<^verbatim>\<open>handle::set_append_only\<close>\<close>

definition set_append_only ::
  "handle \<Rightarrow> bool \<Rightarrow> kernel \<Rightarrow> (error_code + unit) \<times> handle \<times> kernel" where
  "set_append_only h enable k =
     (let (attribs, k1) = sys_fcntl_getfl k (fd (h_v h)) in
      if attribs = - 1 then (Inl (errno k1, system_category), h, k1)
      else if enable then
        (let attribs = attribs OR O_APPEND;
             (r, k2) = sys_fcntl_setfl k1 (fd (h_v h)) attribs in
         if r = - 1 then (Inl (errno k2, system_category), h, k2)
         else (Inr (),
               h\<lparr>h_v := (h_v h)\<lparr>behaviour := insert append_only (behaviour (h_v h))\<rparr>\<rparr>, k2))
      else
        (let attribs = attribs AND NOT O_APPEND;
             (r, k2) = sys_fcntl_setfl k1 (fd (h_v h)) attribs in
         if r = - 1 then (Inl (errno k2, system_category), h, k2)
         else (Inr (),
               h\<lparr>h_v := (h_v h)\<lparr>behaviour := behaviour (h_v h) - {append_only}\<rparr>\<rparr>, k2)))"

subsection \<open>\<^verbatim>\<open>handle::set_kernel_caching\<close>\<close>

text \<open>
  The parameter of the source is named \<^verbatim>\<open>caching\<close> like its type; here it is
  \<open>mode\<close>. The \<^verbatim>\<open>switch\<close> of the source is on the member \<^verbatim>\<open>_caching\<close>, the mode the
  handle has stored, and the parameter is read by the final assignment only.
\<close>

definition set_kernel_caching ::
  "handle \<Rightarrow> caching \<Rightarrow> kernel \<Rightarrow> (error_code + unit) \<times> handle \<times> kernel" where
  "set_kernel_caching h mode k =
     (let (attribs, k1) = sys_fcntl_getfl k (fd (h_v h)) in
      if attribs = - 1 then (Inl (errno k1, system_category), h, k1)
      else
        (let attribs = attribs AND NOT (O_SYNC OR O_DIRECT OR O_DSYNC) in
         case h_caching h of
           unchanged \<Rightarrow> (Inr (), h\<lparr>h_caching := mode\<rparr>, k1)
         | none \<Rightarrow>
             (let attribs = attribs OR (O_SYNC OR O_DIRECT);
                  (r, k2) = sys_fcntl_setfl k1 (fd (h_v h)) attribs in
              if r = - 1 then (Inl (errno k2, system_category), h, k2)
              else (Inr (),
                    h\<lparr>h_v := (h_v h)\<lparr>behaviour := insert aligned_io (behaviour (h_v h))\<rparr>,
                      h_caching := mode\<rparr>, k2))
         | only_metadata \<Rightarrow>
             (let attribs = attribs OR O_DIRECT;
                  (r, k2) = sys_fcntl_setfl k1 (fd (h_v h)) attribs in
              if r = - 1 then (Inl (errno k2, system_category), h, k2)
              else (Inr (),
                    h\<lparr>h_v := (h_v h)\<lparr>behaviour := insert aligned_io (behaviour (h_v h))\<rparr>,
                      h_caching := mode\<rparr>, k2))
         | reads \<Rightarrow>
             (let attribs = attribs OR O_SYNC;
                  (r, k2) = sys_fcntl_setfl k1 (fd (h_v h)) attribs in
              if r = - 1 then (Inl (errno k2, system_category), h, k2)
              else (Inr (),
                    h\<lparr>h_v := (h_v h)\<lparr>behaviour := behaviour (h_v h) - {aligned_io}\<rparr>,
                      h_caching := mode\<rparr>, k2))
         | reads_and_metadata \<Rightarrow>
             (let attribs = attribs OR O_DSYNC;
                  (r, k2) = sys_fcntl_setfl k1 (fd (h_v h)) attribs in
              if r = - 1 then (Inl (errno k2, system_category), h, k2)
              else (Inr (),
                    h\<lparr>h_v := (h_v h)\<lparr>behaviour := behaviour (h_v h) - {aligned_io}\<rparr>,
                      h_caching := mode\<rparr>, k2))
         | _ \<Rightarrow>
             (let (r, k2) = sys_fcntl_setfl k1 (fd (h_v h)) attribs in
              if r = - 1 then (Inl (errno k2, system_category), h, k2)
              else (Inr (),
                    h\<lparr>h_v := (h_v h)\<lparr>behaviour := behaviour (h_v h) - {aligned_io}\<rparr>,
                      h_caching := mode\<rparr>, k2))))"

subsection \<open>\<^verbatim>\<open>handle::current_path\<close>, on Linux\<close>

text \<open>\<^verbatim>\<open>snprintf\<close> with \<^verbatim>\<open>%d\<close>: the decimal digits of a C \<^verbatim>\<open>int\<close>, with its sign.\<close>

fun show_nat :: "nat \<Rightarrow> string" where
  "show_nat n =
     (if n < 10 then [''0123456789'' ! n]
      else show_nat (n div 10) @ [''0123456789'' ! (n mod 10)])"

declare show_nat.simps [simp del]

definition show_int :: "int \<Rightarrow> string" where
  "show_int i = (if i < 0 then CHR ''-'' # show_nat (nat (- i)) else show_nat (nat i))"

text \<open>
  \<^verbatim>\<open>s.compare(pos, len, t)\<close> returns 0 exactly when the \<open>len\<close> characters of \<open>s\<close>
  from \<open>pos\<close> on are \<open>t\<close>; the source only asks whether it returns 0.
\<close>

definition compare_is_0 :: "string \<Rightarrow> nat \<Rightarrow> nat \<Rightarrow> string \<Rightarrow> bool" where
  "compare_is_0 s pos len t = (take len (drop pos s) = t)"

text \<open>
  Modelled from the spec: \<^verbatim>\<open>error_from_exception\<close>, which is not among the sources. The
  only exception the body can raise is the \<^verbatim>\<open>std::bad_alloc\<close> of \<^verbatim>\<open>ret.resize(32769)\<close>;
  the spec: "allocation failures surface as an OS error kind".
\<close>

definition error_from_exception :: error_code where
  "error_from_exception = (ENOMEM, generic_category)"

text \<open>
  A const member again. The buffer of 32769 bytes is allocated first; \<^verbatim>\<open>readlink\<close> is
  given 32768 of them.
\<close>

definition current_path :: "handle \<Rightarrow> kernel \<Rightarrow> (error_code + string) \<times> kernel" where
  "current_path h k =
     (if heap_limit k < 32769 then (Inl error_from_exception, k)
      else
        (let in_path = ''/proc/self/fd/'' @ show_int (fd (h_v h));
             ((len, out), k1) = sys_readlink k in_path 32768 in
         if len = - 1 then (Inl (errno k1, system_category), k1)
         else
           (let ret = take (nat len) out;
                ret = (if length ret \<ge> 10 \<and>
                          (compare_is_0 ret 0 10 '' (deleted)'' \<or>
                           compare_is_0 ret (length ret - 10) 10 '' (deleted)'')
                       then [] else ret)
            in (Inr ret, k1))))"

section \<open>Properties\<close>

subsection \<open>Example processes and handles\<close>

text \<open>
  A process with descriptor 3 open on a description with the status flags \<open>fl\<close>, under
  the fault schedule \<open>fs\<close>, and a handle on that descriptor.
\<close>

definition kernel_with :: "32 word \<Rightarrow> (nat \<Rightarrow> syscall \<Rightarrow> int option) \<Rightarrow> kernel" where
  "kernel_with fl fs =
     \<lparr>fdtab = [3 \<mapsto> 0], status = (\<lambda>d. fl), links = [''/proc/self/fd/3'' \<mapsto> ''/tmp/a''],
      nofile = 16, faults = fs, heap_limit = 1000000, errno = 0, trace = []\<rparr>"

definition handle_with :: "disposition set \<Rightarrow> caching \<Rightarrow> handle" where
  "handle_with b c = \<lparr>h_v = \<lparr>behaviour = b, fd = 3\<rparr>, h_caching = c, h_flags = {}\<rparr>"

definition no_faults :: "nat \<Rightarrow> syscall \<Rightarrow> int option" where
  "no_faults n c = None"

definition close_fails :: "nat \<Rightarrow> syscall \<Rightarrow> int option" where
  "close_fails n c = (case c of Close x \<Rightarrow> Some 5 | _ \<Rightarrow> None)"

definition setfl_fails :: "nat \<Rightarrow> syscall \<Rightarrow> int option" where
  "setfl_fails n c = (case c of Fcntl_setfl x a \<Rightarrow> Some 22 | _ \<Rightarrow> None)"

definition dup_fails :: "nat \<Rightarrow> syscall \<Rightarrow> int option" where
  "dup_fails n c = (case c of Dup x \<Rightarrow> Some 24 | _ \<Rightarrow> None)"

lemmas ex_defs =
  kernel_with_def handle_with_def no_faults_def close_fails_def setfl_fails_def dup_fails_def

subsection \<open>Facts about the system calls\<close>

lemmas sys_defs =
  sys_fcntl_getfl_def sys_fcntl_setfl_def sys_fsync_def sys_close_def sys_dup_def
  sys_readlink_def enter_def fault_def

lemma not_valid_default: "\<not> is_valid native_handle_type"
  by (simp add: is_valid_def native_handle_type_def)

lemma sys_close_trace: "trace (snd (sys_close k n)) = trace k @ [Close n]"
  by (simp add: sys_close_def enter_def Let_def split: option.splits)

lemma sys_fsync_trace: "trace (snd (sys_fsync k n)) = trace k @ [Fsync n]"
  by (simp add: sys_fsync_def enter_def Let_def split: option.splits)

lemma close_trace:
  "trace (snd (snd (close h k))) = trace k @
     (if is_valid (h_v h) then
        (if are_safety_fsyncs_issued h then
           (if fst (sys_fsync k (fd (h_v h))) = - 1 then [Fsync (fd (h_v h))]
            else [Fsync (fd (h_v h)), Close (fd (h_v h))])
         else [Close (fd (h_v h))])
      else [])"
  by (simp add: close_def case_prod_beta sys_close_trace sys_fsync_trace)

lemma sys_dup_success:
  assumes "sys_dup k n = (m, k1)" and "m \<noteq> - 1"
  shows "fdtab k n \<noteq> None \<and> fdtab k m = None \<and> m \<noteq> n \<and>
         k1 = k\<lparr>fdtab := (fdtab k)(m := fdtab k n), trace := trace k @ [Dup n]\<rparr>"
  using assms
  by (auto simp: sys_dup_def enter_def Let_def split: option.splits dest: find_Some_iff [THEN iffD1])

lemma sys_fcntl_getfl_success:
  assumes "sys_fcntl_getfl k n = (a, k1)" and "a \<noteq> - 1"
  shows "\<exists>d. fdtab k n = Some d \<and> a = status k d \<and> k1 = enter k (Fcntl_getfl n)"
  using assms by (auto simp: sys_fcntl_getfl_def Let_def split: option.splits)

lemma sys_fcntl_setfl_success:
  assumes "sys_fcntl_setfl k n a = (r, k1)" and "r \<noteq> - 1"
  shows "\<exists>d. fdtab k n = Some d \<and>
           k1 = (enter k (Fcntl_setfl n a))\<lparr>status := (status k)(d := a)\<rparr>"
  using assms by (auto simp: sys_fcntl_setfl_def Let_def split: option.splits)

lemma set_append_only_success:
  assumes "set_append_only h enable k = (Inr (), h', k')"
  shows "\<exists>d. fdtab k (fd (h_v h)) = Some d \<and> fdtab k' = fdtab k \<and>
           status k' = (status k)(d := (if enable then status k d OR O_APPEND
                                        else status k d AND NOT O_APPEND)) \<and>
           h' = h\<lparr>h_v := (h_v h)\<lparr>behaviour :=
                   (if enable then insert append_only (behaviour (h_v h))
                    else behaviour (h_v h) - {append_only})\<rparr>\<rparr>"
proof -
  obtain a k1 where g: "sys_fcntl_getfl k (fd (h_v h)) = (a, k1)"
    by (cases "sys_fcntl_getfl k (fd (h_v h))")
  with assms have a: "a \<noteq> - 1"
    by (auto simp: set_append_only_def)
  from sys_fcntl_getfl_success [OF g a] obtain d where
    d: "fdtab k (fd (h_v h)) = Some d" "a = status k d" "k1 = enter k (Fcntl_getfl (fd (h_v h)))"
    by blast
  define b where "b = (if enable then a OR O_APPEND else a AND NOT O_APPEND)"
  obtain r k2 where s: "sys_fcntl_setfl k1 (fd (h_v h)) b = (r, k2)"
    by (cases "sys_fcntl_setfl k1 (fd (h_v h)) b")
  with assms g a have r: "r \<noteq> - 1"
    by (auto simp: set_append_only_def b_def split: if_splits)
  from sys_fcntl_setfl_success [OF s r] d obtain
    k2: "k2 = (enter k1 (Fcntl_setfl (fd (h_v h)) b))\<lparr>status := (status k1)(d := b)\<rparr>"
    by (auto simp: enter_def)
  from assms g a s r have "k' = k2" and
    "h' = h\<lparr>h_v := (h_v h)\<lparr>behaviour :=
                   (if enable then insert append_only (behaviour (h_v h))
                    else behaviour (h_v h) - {append_only})\<rparr>\<rparr>"
    by (auto simp: set_append_only_def b_def split: if_splits)
  with d k2 show ?thesis
    by (auto simp: enter_def b_def)
qed

lemma or_and_not_same: "(a OR b) AND NOT b = a AND NOT (b :: 32 word)"
  by (rule bit_eqI) (auto simp: bit_simps)

lemma sys_readlink_trace:
  "trace (snd (sys_readlink k p n)) = trace k @ [Readlink p n]"
  by (simp add: sys_readlink_def enter_def Let_def split: option.splits)

lemma length_marker: "length '' (deleted)'' = 10"
  by simp

lemma marked_is_cleared:
  assumes "prefix '' (deleted)'' s \<or> suffix '' (deleted)'' s"
  shows "length s \<ge> 10 \<and>
         (compare_is_0 s 0 10 '' (deleted)'' \<or> compare_is_0 s (length s - 10) 10 '' (deleted)'')"
  using assms
proof
  assume "prefix '' (deleted)'' s"
  then obtain zs where "s = '' (deleted)'' @ zs"
    by (auto simp: prefix_def)
  then show ?thesis
    by (simp add: compare_is_0_def)
next
  assume "suffix '' (deleted)'' s"
  then obtain zs where "s = zs @ '' (deleted)''"
    by (auto simp: suffix_def)
  then show ?thesis
    by (simp add: compare_is_0_def)
qed

lemma show_int_examples:
  "show_int 3 = ''3''" "show_int 1234 = ''1234''" "show_int (- 1) = ''-1''" "show_int 0 = ''0''"
  by (simp_all add: show_int_def show_nat.simps)

subsection \<open>Closing\<close>

text \<open>
  C4. After \<^verbatim>\<open>close\<close> has returned success the handle is empty, whatever it was before,
  and closing it again issues no system call, changes nothing and returns success.
\<close>

theorem close_success_empties:
  assumes "close h k = (Inr (), h', k')"
  shows "\<not> is_valid (h_v h') \<and> close h' k' = (Inr (), h', k')"
  using assms
  by (auto simp: close_def not_valid_default split: if_splits prod.splits)

theorem close_success_empties_witness:
  "close (handle_with {file_disposition} all) (kernel_with 0 no_faults) =
     (Inr (), (handle_with {file_disposition} all)\<lparr>h_v := native_handle_type\<rparr>,
      (kernel_with 0 no_faults)\<lparr>fdtab := Map.empty, trace := [Close 3]\<rparr>) \<and>
   \<not> is_valid (h_v ((handle_with {file_disposition} all)\<lparr>h_v := native_handle_type\<rparr>)) \<and>
   close ((handle_with {file_disposition} all)\<lparr>h_v := native_handle_type\<rparr>)
      ((kernel_with 0 no_faults)\<lparr>fdtab := Map.empty, trace := [Close 3]\<rparr>) =
     (Inr (), (handle_with {file_disposition} all)\<lparr>h_v := native_handle_type\<rparr>,
      (kernel_with 0 no_faults)\<lparr>fdtab := Map.empty, trace := [Close 3]\<rparr>)"
proof -
  have run: "close (handle_with {file_disposition} all) (kernel_with 0 no_faults) =
     (Inr (), (handle_with {file_disposition} all)\<lparr>h_v := native_handle_type\<rparr>,
      (kernel_with 0 no_faults)\<lparr>fdtab := Map.empty, trace := [Close 3]\<rparr>)"
    by (simp add: close_def ex_defs is_valid_def are_safety_fsyncs_issued_def sys_defs)
  from close_success_empties [OF run] run show ?thesis by simp
qed

text \<open>
  C5. For a non-empty handle, \<^verbatim>\<open>close\<close> returns an error exactly when the durability
  flush (issued under safety fsyncs) or else the release of the descriptor returns -1;
  the error is then \<open>errno\<close> in the system category, and the handle is returned as it
  was, still non-empty, so that \<^verbatim>\<open>close\<close> can be called again.
\<close>

theorem close_failure_keeps_handle:
  assumes "is_valid (h_v h)" and "close h k = (r, h', k')"
  shows "(isl r \<longleftrightarrow>
            (are_safety_fsyncs_issued h \<and> fst (sys_fsync k (fd (h_v h))) = - 1) \<or>
            fst (sys_close (if are_safety_fsyncs_issued h then snd (sys_fsync k (fd (h_v h))) else k)
                   (fd (h_v h))) = - 1) \<and>
         (isl r \<longrightarrow> r = Inl (errno k', system_category) \<and> h' = h \<and> is_valid (h_v h'))"
  using assms
  by (auto simp: close_def split: if_splits prod.splits)

theorem close_failure_keeps_handle_witness:
  "is_valid (h_v (handle_with {file_disposition} all)) \<and>
   close (handle_with {file_disposition} all) (kernel_with 0 close_fails) =
     (Inl (5, system_category), handle_with {file_disposition} all,
      (kernel_with 0 close_fails)\<lparr>errno := 5, trace := [Close 3]\<rparr>) \<and>
   fst (sys_close (kernel_with 0 close_fails) 3) = - 1"
proof -
  have valid: "is_valid (h_v (handle_with {file_disposition} all))"
    by (simp add: ex_defs is_valid_def)
  have run: "close (handle_with {file_disposition} all) (kernel_with 0 close_fails) =
     (Inl (5, system_category), handle_with {file_disposition} all,
      (kernel_with 0 close_fails)\<lparr>errno := 5, trace := [Close 3]\<rparr>)"
    by (simp add: close_def ex_defs is_valid_def are_safety_fsyncs_issued_def sys_defs)
  from close_failure_keeps_handle [OF valid run] valid run show ?thesis
    by (simp add: are_safety_fsyncs_issued_def ex_defs)
qed

text \<open>
  C3. Destroying a non-empty handle runs \<^verbatim>\<open>close\<close> on it; when that returns an error
  the process aborts, and otherwise the destructor returns, in both cases in the state
  \<^verbatim>\<open>close\<close> left. Destroying an empty handle returns with the operating system
  untouched: nothing is closed and the process is never aborted.
\<close>

theorem destructor_closes_or_aborts:
  "(is_valid (h_v h) \<longrightarrow>
      (\<exists>e h1 k1. close h k = (Inl e, h1, k1) \<and> handle_destructor h k = Aborted k1) \<or>
      (\<exists>h1 k1. close h k = (Inr (), h1, k1) \<and> handle_destructor h k = Destroyed k1)) \<and>
   (\<not> is_valid (h_v h) \<longrightarrow> handle_destructor h k = Destroyed k)"
proof (cases "close h k")
  case (fields r h1 k1)
  then show ?thesis
    by (cases r) (simp_all add: handle_destructor_def)
qed

theorem destructor_closes_or_aborts_witness:
  "is_valid (h_v (handle_with {file_disposition} all)) \<and>
   handle_destructor (handle_with {file_disposition} all) (kernel_with 0 close_fails) =
     Aborted ((kernel_with 0 close_fails)\<lparr>errno := 5, trace := [Close 3]\<rparr>) \<and>
   \<not> is_valid (h_v ((handle_with {} all)\<lparr>h_v := native_handle_type\<rparr>)) \<and>
   handle_destructor ((handle_with {} all)\<lparr>h_v := native_handle_type\<rparr>) (kernel_with 0 close_fails) =
     Destroyed (kernel_with 0 close_fails)"
proof -
  have valid: "is_valid (h_v (handle_with {file_disposition} all))"
    by (simp add: ex_defs is_valid_def)
  have run: "close (handle_with {file_disposition} all) (kernel_with 0 close_fails) =
     (Inl (5, system_category), handle_with {file_disposition} all,
      (kernel_with 0 close_fails)\<lparr>errno := 5, trace := [Close 3]\<rparr>)"
    by (simp add: close_def ex_defs is_valid_def are_safety_fsyncs_issued_def sys_defs)
  have empty: "\<not> is_valid (h_v ((handle_with {} all)\<lparr>h_v := native_handle_type\<rparr>))"
    by (simp add: not_valid_default)
  from destructor_closes_or_aborts
         [of "handle_with {file_disposition} all" "kernel_with 0 close_fails"]
       destructor_closes_or_aborts
         [of "(handle_with {} all)\<lparr>h_v := native_handle_type\<rparr>" "kernel_with 0 close_fails"]
       valid run empty
  show ?thesis by simp
qed

text \<open>
  C6. \<^verbatim>\<open>are_safety_fsyncs_issued\<close> holds exactly in the caching mode \<^verbatim>\<open>safety_fsyncs\<close>,
  and \<^verbatim>\<open>close\<close> on a non-empty handle issues \<^verbatim>\<open>fsync\<close> exactly in that mode: the calls
  it adds are then the flush followed by the release (the flush alone when the flush
  fails), and in every other mode the release alone.
\<close>

theorem close_flushes_iff_safety_fsyncs:
  assumes "is_valid (h_v h)" and "close h k = (r, h', k')"
  shows "(are_safety_fsyncs_issued h \<longleftrightarrow> h_caching h = safety_fsyncs) \<and>
         (Fsync (fd (h_v h)) \<in> set (drop (length (trace k)) (trace k')) \<longleftrightarrow>
            h_caching h = safety_fsyncs) \<and>
         trace k' = trace k @
           (if h_caching h = safety_fsyncs then
              (if fst (sys_fsync k (fd (h_v h))) = - 1 then [Fsync (fd (h_v h))]
               else [Fsync (fd (h_v h)), Close (fd (h_v h))])
            else [Close (fd (h_v h))])"
proof -
  have "trace k' = trace (snd (snd (close h k)))"
    using assms(2) by simp
  then show ?thesis
    using assms(1) by (simp add: close_trace are_safety_fsyncs_issued_def)
qed

theorem close_flushes_iff_safety_fsyncs_witness:
  "is_valid (h_v (handle_with {file_disposition} safety_fsyncs)) \<and>
   close (handle_with {file_disposition} safety_fsyncs) (kernel_with 0 no_faults) =
     (Inr (), (handle_with {file_disposition} safety_fsyncs)\<lparr>h_v := native_handle_type\<rparr>,
      (kernel_with 0 no_faults)\<lparr>fdtab := Map.empty, trace := [Fsync 3, Close 3]\<rparr>) \<and>
   is_valid (h_v (handle_with {file_disposition} all)) \<and>
   close (handle_with {file_disposition} all) (kernel_with 0 no_faults) =
     (Inr (), (handle_with {file_disposition} all)\<lparr>h_v := native_handle_type\<rparr>,
      (kernel_with 0 no_faults)\<lparr>fdtab := Map.empty, trace := [Close 3]\<rparr>)"
proof -
  have v1: "is_valid (h_v (handle_with {file_disposition} safety_fsyncs))"
   and v2: "is_valid (h_v (handle_with {file_disposition} all))"
    by (simp_all add: ex_defs is_valid_def)
  have r1: "close (handle_with {file_disposition} safety_fsyncs) (kernel_with 0 no_faults) =
     (Inr (), (handle_with {file_disposition} safety_fsyncs)\<lparr>h_v := native_handle_type\<rparr>,
      (kernel_with 0 no_faults)\<lparr>fdtab := Map.empty, trace := [Fsync 3, Close 3]\<rparr>)"
    by (simp add: close_def ex_defs is_valid_def are_safety_fsyncs_issued_def sys_defs)
  have r2: "close (handle_with {file_disposition} all) (kernel_with 0 no_faults) =
     (Inr (), (handle_with {file_disposition} all)\<lparr>h_v := native_handle_type\<rparr>,
      (kernel_with 0 no_faults)\<lparr>fdtab := Map.empty, trace := [Close 3]\<rparr>)"
    by (simp add: close_def ex_defs is_valid_def are_safety_fsyncs_issued_def sys_defs)
  from close_flushes_iff_safety_fsyncs [OF v1 r1] close_flushes_iff_safety_fsyncs [OF v2 r2]
       v1 v2 r1 r2
  show ?thesis by simp
qed

subsection \<open>Cloning\<close>

text \<open>
  C9. Whatever the handle, \<^verbatim>\<open>clone\<close> is decided by \<^verbatim>\<open>dup\<close> on its descriptor. When
  \<^verbatim>\<open>dup\<close> returns a descriptor, the result is a handle on that descriptor with the
  caching mode, the flags and the behaviour bits of the original; the descriptor is a new
  one, it refers to the open file description of the original's, and the original's
  descriptor and all status flags are as before. When \<^verbatim>\<open>dup\<close> returns -1, \<^verbatim>\<open>clone\<close>
  returns \<open>errno\<close> in the system category. The original handle is not an output of the
  const member, so it cannot change.
\<close>

theorem clone_duplicates:
  assumes "sys_dup k (fd (h_v h)) = (n, k1)"
  shows "(n \<noteq> - 1 \<longrightarrow>
            clone h k = (Inr \<lparr>h_v = \<lparr>behaviour = behaviour (h_v h), fd = n\<rparr>,
                              h_caching = h_caching h, h_flags = h_flags h\<rparr>, k1) \<and>
            n \<noteq> fd (h_v h) \<and> fdtab k n = None \<and> fdtab k1 n = fdtab k (fd (h_v h)) \<and>
            fdtab k1 (fd (h_v h)) = fdtab k (fd (h_v h)) \<and> fdtab k (fd (h_v h)) \<noteq> None \<and>
            status k1 = status k) \<and>
         (n = - 1 \<longrightarrow> clone h k = (Inl (errno k1, system_category), k1))"
proof (intro conjI impI)
  assume ok: "n \<noteq> - 1"
  from sys_dup_success [OF assms ok]
  show "n \<noteq> fd (h_v h)" "fdtab k n = None" "fdtab k1 n = fdtab k (fd (h_v h))"
    "fdtab k1 (fd (h_v h)) = fdtab k (fd (h_v h))" "fdtab k (fd (h_v h)) \<noteq> None"
    "status k1 = status k"
    by auto
  show "clone h k = (Inr \<lparr>h_v = \<lparr>behaviour = behaviour (h_v h), fd = n\<rparr>,
                              h_caching = h_caching h, h_flags = h_flags h\<rparr>, k1)"
    using assms ok by (simp add: clone_def native_handle_type_def)
next
  assume "n = - 1"
  then show "clone h k = (Inl (errno k1, system_category), k1)"
    using assms by (simp add: clone_def)
qed

theorem clone_duplicates_witness:
  "sys_dup (kernel_with 0x400 no_faults) (fd (h_v (handle_with {file_disposition, append_only} reads))) =
     (0, (kernel_with 0x400 no_faults)\<lparr>fdtab := [3 \<mapsto> 0, 0 \<mapsto> 0], trace := [Dup 3]\<rparr>) \<and>
   clone (handle_with {file_disposition, append_only} reads) (kernel_with 0x400 no_faults) =
     (Inr \<lparr>h_v = \<lparr>behaviour = {file_disposition, append_only}, fd = 0\<rparr>,
           h_caching = reads, h_flags = {}\<rparr>,
      (kernel_with 0x400 no_faults)\<lparr>fdtab := [3 \<mapsto> 0, 0 \<mapsto> 0], trace := [Dup 3]\<rparr>) \<and>
   sys_dup (kernel_with 0x400 dup_fails) (fd (h_v (handle_with {file_disposition, append_only} reads))) =
     (- 1, (kernel_with 0x400 dup_fails)\<lparr>errno := 24, trace := [Dup 3]\<rparr>) \<and>
   clone (handle_with {file_disposition, append_only} reads) (kernel_with 0x400 dup_fails) =
     (Inl (24, system_category), (kernel_with 0x400 dup_fails)\<lparr>errno := 24, trace := [Dup 3]\<rparr>)"
proof -
  have run: "sys_dup (kernel_with 0x400 no_faults) (fd (h_v (handle_with {file_disposition, append_only} reads))) =
     (0, (kernel_with 0x400 no_faults)\<lparr>fdtab := [3 \<mapsto> 0, 0 \<mapsto> 0], trace := [Dup 3]\<rparr>)"
    by (simp add: ex_defs sys_defs upt_conv_Cons)
  have fail: "sys_dup (kernel_with 0x400 dup_fails) (fd (h_v (handle_with {file_disposition, append_only} reads))) =
     (- 1, (kernel_with 0x400 dup_fails)\<lparr>errno := 24, trace := [Dup 3]\<rparr>)"
    by (simp add: ex_defs sys_defs)
  from clone_duplicates [OF run] clone_duplicates [OF fail] run fail show ?thesis
    by (simp add: ex_defs)
qed

subsection \<open>Setting attributes\<close>

text \<open>
  C10. When \<^verbatim>\<open>set_append_only\<close> or \<^verbatim>\<open>set_kernel_caching\<close> returns an error, the handle
  it leaves is the handle it was given: behaviour bits, caching mode and all.
\<close>

theorem failed_attribute_call_keeps_handle:
  "(set_append_only h enable k = (Inl e, h', k') \<longrightarrow> h' = h) \<and>
   (set_kernel_caching h mode k = (Inl e, h', k') \<longrightarrow> h' = h)"
  by (auto simp: set_append_only_def set_kernel_caching_def Let_def
      split: prod.splits if_splits caching.splits)

theorem failed_attribute_call_keeps_handle_witness:
  "set_append_only (handle_with {file_disposition} all) True (kernel_with 0 setfl_fails) =
     (Inl (22, system_category), handle_with {file_disposition} all,
      (kernel_with 0 setfl_fails)\<lparr>errno := 22, trace := [Fcntl_getfl 3, Fcntl_setfl 3 0x400]\<rparr>) \<and>
   set_kernel_caching (handle_with {file_disposition} all) none (kernel_with 0 setfl_fails) =
     (Inl (22, system_category), handle_with {file_disposition} all,
      (kernel_with 0 setfl_fails)\<lparr>errno := 22, trace := [Fcntl_getfl 3, Fcntl_setfl 3 0]\<rparr>)"
proof -
  have a: "fst (set_append_only (handle_with {file_disposition} all) True (kernel_with 0 setfl_fails)) =
      Inl (22, system_category)"
    by (simp add: set_append_only_def ex_defs sys_defs O_APPEND_def)
  have b: "fst (set_kernel_caching (handle_with {file_disposition} all) none (kernel_with 0 setfl_fails)) =
      Inl (22, system_category)"
    by (simp add: set_kernel_caching_def ex_defs sys_defs O_SYNC_def O_DIRECT_def O_DSYNC_def)
  have c: "snd (snd (set_append_only (handle_with {file_disposition} all) True (kernel_with 0 setfl_fails))) =
      (kernel_with 0 setfl_fails)\<lparr>errno := 22, trace := [Fcntl_getfl 3, Fcntl_setfl 3 0x400]\<rparr>"
    by (simp add: set_append_only_def ex_defs sys_defs O_APPEND_def)
  have d: "snd (snd (set_kernel_caching (handle_with {file_disposition} all) none (kernel_with 0 setfl_fails))) =
      (kernel_with 0 setfl_fails)\<lparr>errno := 22, trace := [Fcntl_getfl 3, Fcntl_setfl 3 0]\<rparr>"
    by (simp add: set_kernel_caching_def ex_defs sys_defs O_SYNC_def O_DIRECT_def O_DSYNC_def)
  from failed_attribute_call_keeps_handle
    [of "handle_with {file_disposition} all" True "kernel_with 0 setfl_fails" "(22, system_category)"
        "fst (snd (set_append_only (handle_with {file_disposition} all) True (kernel_with 0 setfl_fails)))"
        "snd (snd (set_append_only (handle_with {file_disposition} all) True (kernel_with 0 setfl_fails)))"]
    a c
  have 1: "set_append_only (handle_with {file_disposition} all) True (kernel_with 0 setfl_fails) =
     (Inl (22, system_category), handle_with {file_disposition} all,
      (kernel_with 0 setfl_fails)\<lparr>errno := 22, trace := [Fcntl_getfl 3, Fcntl_setfl 3 0x400]\<rparr>)"
    by (metis prod.collapse)
  from failed_attribute_call_keeps_handle
    [of "handle_with {file_disposition} all" _ "kernel_with 0 setfl_fails" "(22, system_category)"
        "fst (snd (set_kernel_caching (handle_with {file_disposition} all) none (kernel_with 0 setfl_fails)))"
        "snd (snd (set_kernel_caching (handle_with {file_disposition} all) none (kernel_with 0 setfl_fails)))"
        none]
    b d
  have 2: "set_kernel_caching (handle_with {file_disposition} all) none (kernel_with 0 setfl_fails) =
     (Inl (22, system_category), handle_with {file_disposition} all,
      (kernel_with 0 setfl_fails)\<lparr>errno := 22, trace := [Fcntl_getfl 3, Fcntl_setfl 3 0]\<rparr>)"
    by (metis prod.collapse)
  from 1 2 show ?thesis by simp
qed

text \<open>
  C8, as amended. After \<^verbatim>\<open>set_append_only(true)\<close> and then \<^verbatim>\<open>set_append_only(false)\<close>,
  both successful, \<^verbatim>\<open>O_APPEND\<close> is clear in the status flags and \<^verbatim>\<open>append_only\<close> is clear
  in the behaviour bits, and every other status flag, behaviour bit and field of the
  handle is as it was. So the status flags are those from before the calls exactly when
  \<^verbatim>\<open>O_APPEND\<close> was clear then, and the handle is the one from before exactly when
  \<^verbatim>\<open>append_only\<close> was clear.
\<close>

theorem append_only_on_then_off:
  assumes "set_append_only h True k = (Inr (), h1, k1)"
    and "set_append_only h1 False k1 = (Inr (), h2, k2)"
  shows "\<exists>d. fdtab k (fd (h_v h)) = Some d \<and> fdtab k2 = fdtab k \<and>
           status k2 = (status k)(d := status k d AND NOT O_APPEND) \<and>
           h2 = h\<lparr>h_v := (h_v h)\<lparr>behaviour := behaviour (h_v h) - {append_only}\<rparr>\<rparr> \<and>
           (status k2 d = status k d \<longleftrightarrow> status k d AND O_APPEND = 0) \<and>
           (h2 = h \<longleftrightarrow> append_only \<notin> behaviour (h_v h))"
proof -
  from set_append_only_success [OF assms(1)] obtain d where
    1: "fdtab k (fd (h_v h)) = Some d" "fdtab k1 = fdtab k"
       "status k1 = (status k)(d := status k d OR O_APPEND)"
       "h1 = h\<lparr>h_v := (h_v h)\<lparr>behaviour := insert append_only (behaviour (h_v h))\<rparr>\<rparr>"
    by auto
  from set_append_only_success [OF assms(2)] 1 have
    2: "fdtab k2 = fdtab k"
       "status k2 = (status k)(d := status k d AND NOT O_APPEND)"
       "h2 = h\<lparr>h_v := (h_v h)\<lparr>behaviour := behaviour (h_v h) - {append_only}\<rparr>\<rparr>"
    by (auto simp: or_and_not_same)
  have 3: "(status k d AND NOT O_APPEND = status k d) = (status k d AND O_APPEND = 0)"
    by (auto simp: bit_eq_iff bit_simps)
  have 4: "(h\<lparr>h_v := (h_v h)\<lparr>behaviour := behaviour (h_v h) - {append_only}\<rparr>\<rparr> = h) =
           (append_only \<notin> behaviour (h_v h))"
  proof
    assume "h\<lparr>h_v := (h_v h)\<lparr>behaviour := behaviour (h_v h) - {append_only}\<rparr>\<rparr> = h"
    then have "behaviour (h_v (h\<lparr>h_v := (h_v h)\<lparr>behaviour := behaviour (h_v h) - {append_only}\<rparr>\<rparr>))
        = behaviour (h_v h)" by simp
    then show "append_only \<notin> behaviour (h_v h)" by auto
  next
    assume "append_only \<notin> behaviour (h_v h)"
    then show "h\<lparr>h_v := (h_v h)\<lparr>behaviour := behaviour (h_v h) - {append_only}\<rparr>\<rparr> = h" by simp
  qed
  from 1 2 3 4 show ?thesis by simp
qed

theorem append_only_on_then_off_witness:
  "set_append_only (handle_with {file_disposition} all) True (kernel_with 1 no_faults) =
     (Inr (), handle_with {file_disposition, append_only} all,
      (kernel_with 1 no_faults)\<lparr>status := (status (kernel_with 1 no_faults))(0 := 0x401),
         trace := [Fcntl_getfl 3, Fcntl_setfl 3 0x401]\<rparr>) \<and>
   set_append_only (handle_with {file_disposition, append_only} all) False
      ((kernel_with 1 no_faults)\<lparr>status := (status (kernel_with 1 no_faults))(0 := 0x401),
         trace := [Fcntl_getfl 3, Fcntl_setfl 3 0x401]\<rparr>) =
     (Inr (), handle_with {file_disposition} all,
      (kernel_with 1 no_faults)\<lparr>status := (status (kernel_with 1 no_faults))(0 := 1),
         trace := [Fcntl_getfl 3, Fcntl_setfl 3 0x401, Fcntl_getfl 3, Fcntl_setfl 3 1]\<rparr>) \<and>
   status (kernel_with 1 no_faults) 0 AND O_APPEND = 0"
proof -
  have r1: "set_append_only (handle_with {file_disposition} all) True (kernel_with 1 no_faults) =
     (Inr (), handle_with {file_disposition, append_only} all,
      (kernel_with 1 no_faults)\<lparr>status := (status (kernel_with 1 no_faults))(0 := 0x401),
         trace := [Fcntl_getfl 3, Fcntl_setfl 3 0x401]\<rparr>)"
    by (simp add: set_append_only_def ex_defs sys_defs O_APPEND_def insert_commute)
  have r2: "set_append_only (handle_with {file_disposition, append_only} all) False
      ((kernel_with 1 no_faults)\<lparr>status := (status (kernel_with 1 no_faults))(0 := 0x401),
         trace := [Fcntl_getfl 3, Fcntl_setfl 3 0x401]\<rparr>) =
     (Inr (), handle_with {file_disposition} all,
      (kernel_with 1 no_faults)\<lparr>status := (status (kernel_with 1 no_faults))(0 := 1),
         trace := [Fcntl_getfl 3, Fcntl_setfl 3 0x401, Fcntl_getfl 3, Fcntl_setfl 3 1]\<rparr>)"
    by (auto simp: set_append_only_def ex_defs sys_defs O_APPEND_def)
  from append_only_on_then_off [OF r1 r2] r1 r2 show ?thesis
    by (simp add: ex_defs O_APPEND_def)
qed

text \<open>
  C8 as stated fails where \<^verbatim>\<open>O_APPEND\<close> was set before: a handle opened for appending
  (status flags \<^verbatim>\<open>O_WRONLY | O_APPEND\<close>, behaviour bit \<^verbatim>\<open>append_only\<close>) has both calls
  succeed and ends with \<^verbatim>\<open>O_APPEND\<close> and \<^verbatim>\<open>append_only\<close> clear.
\<close>

theorem append_only_not_restored_counterexample:
  "set_append_only (handle_with {file_disposition, append_only} all) True (kernel_with 0x401 no_faults) =
     (Inr (), handle_with {file_disposition, append_only} all,
      (kernel_with 0x401 no_faults)\<lparr>status := (status (kernel_with 0x401 no_faults))(0 := 0x401),
         trace := [Fcntl_getfl 3, Fcntl_setfl 3 0x401]\<rparr>) \<and>
   set_append_only (handle_with {file_disposition, append_only} all) False
      ((kernel_with 0x401 no_faults)\<lparr>status := (status (kernel_with 0x401 no_faults))(0 := 0x401),
         trace := [Fcntl_getfl 3, Fcntl_setfl 3 0x401]\<rparr>) =
     (Inr (), handle_with {file_disposition} all,
      (kernel_with 0x401 no_faults)\<lparr>status := (status (kernel_with 0x401 no_faults))(0 := 1),
         trace := [Fcntl_getfl 3, Fcntl_setfl 3 0x401, Fcntl_getfl 3, Fcntl_setfl 3 1]\<rparr>) \<and>
   status (kernel_with 0x401 no_faults) 0 AND O_APPEND = O_APPEND \<and>
   status ((kernel_with 0x401 no_faults)\<lparr>status := (status (kernel_with 0x401 no_faults))(0 := 1),
         trace := [Fcntl_getfl 3, Fcntl_setfl 3 0x401, Fcntl_getfl 3, Fcntl_setfl 3 1]\<rparr>) 0
      AND O_APPEND = 0 \<and>
   append_only \<in> behaviour (h_v (handle_with {file_disposition, append_only} all)) \<and>
   append_only \<notin> behaviour (h_v (handle_with {file_disposition} all))"
  by (auto simp: set_append_only_def ex_defs sys_defs O_APPEND_def)

text \<open>
  C1, at an input where the code departs from it. The handle has the caching mode
  \<^verbatim>\<open>all\<close> and is asked for \<^verbatim>\<open>none\<close>. The \<^verbatim>\<open>switch\<close> runs the case of the stored mode
  \<^verbatim>\<open>all\<close>: the flags written are the flags read with the synchronous-write and
  direct-I/O bits clear, none of them is set, and \<^verbatim>\<open>aligned_io\<close> stays clear, while the
  stored mode becomes \<^verbatim>\<open>none\<close>.
\<close>

theorem set_kernel_caching_switches_on_stored_mode:
  "set_kernel_caching (handle_with {file_disposition} all) none (kernel_with 2 no_faults) =
     (Inr (), handle_with {file_disposition} none,
      (kernel_with 2 no_faults)\<lparr>status := (status (kernel_with 2 no_faults))(0 := 2),
         trace := [Fcntl_getfl 3, Fcntl_setfl 3 2]\<rparr>) \<and>
   (2 :: 32 word) AND (O_SYNC OR O_DIRECT) = 0 \<and>
   aligned_io \<notin> behaviour (h_v (handle_with {file_disposition} none))"
  by (simp add: set_kernel_caching_def ex_defs sys_defs O_SYNC_def O_DIRECT_def O_DSYNC_def)

text \<open>
  C2, at an input where the code departs from it. From the same start, the first call with
  \<^verbatim>\<open>none\<close> runs the case of \<^verbatim>\<open>all\<close> and the second call, now with \<^verbatim>\<open>none\<close> stored,
  runs the case of \<^verbatim>\<open>none\<close>: it sets \<^verbatim>\<open>O_SYNC | O_DIRECT\<close> and \<^verbatim>\<open>aligned_io\<close>, so the
  state after the second call is not the state after the first.
\<close>

theorem set_kernel_caching_second_call_differs:
  "set_kernel_caching (handle_with {file_disposition} all) none (kernel_with 2 no_faults) =
     (Inr (), handle_with {file_disposition} none,
      (kernel_with 2 no_faults)\<lparr>status := (status (kernel_with 2 no_faults))(0 := 2),
         trace := [Fcntl_getfl 3, Fcntl_setfl 3 2]\<rparr>) \<and>
   set_kernel_caching (handle_with {file_disposition} none) none
      ((kernel_with 2 no_faults)\<lparr>status := (status (kernel_with 2 no_faults))(0 := 2),
         trace := [Fcntl_getfl 3, Fcntl_setfl 3 2]\<rparr>) =
     (Inr (), handle_with {file_disposition, aligned_io} none,
      (kernel_with 2 no_faults)\<lparr>status := (status (kernel_with 2 no_faults))(0 := 0x105002),
         trace := [Fcntl_getfl 3, Fcntl_setfl 3 2, Fcntl_getfl 3, Fcntl_setfl 3 0x105002]\<rparr>) \<and>
   handle_with {file_disposition, aligned_io} none \<noteq> handle_with {file_disposition} none \<and>
   (0x105002 :: 32 word) \<noteq> 2"
  by (simp add: set_kernel_caching_def ex_defs sys_defs O_SYNC_def O_DIRECT_def O_DSYNC_def
      insert_commute)

subsection \<open>The current path\<close>

text \<open>
  C7. When the buffer can be allocated, \<^verbatim>\<open>current_path\<close> issues one call, \<^verbatim>\<open>readlink\<close>
  on \<^verbatim>\<open>/proc/self/fd/\<close> followed by the descriptor in decimal, with room for 32768
  bytes; and when that call succeeds with a result that starts or ends with
  \<^verbatim>\<open> (deleted)\<close>, \<^verbatim>\<open>current_path\<close> returns the empty path as a success.
\<close>

theorem current_path_deleted_is_empty:
  assumes "32769 \<le> heap_limit k"
  shows "trace (snd (current_path h k)) =
           trace k @ [Readlink (''/proc/self/fd/'' @ show_int (fd (h_v h))) 32768] \<and>
         (fault k (Readlink (''/proc/self/fd/'' @ show_int (fd (h_v h))) 32768) = None \<longrightarrow>
          links k (''/proc/self/fd/'' @ show_int (fd (h_v h))) = Some t \<longrightarrow>
          prefix '' (deleted)'' (take 32768 t) \<or> suffix '' (deleted)'' (take 32768 t) \<longrightarrow>
          fst (current_path h k) = Inr [])"
proof (intro conjI impI)
  show "trace (snd (current_path h k)) =
           trace k @ [Readlink (''/proc/self/fd/'' @ show_int (fd (h_v h))) 32768]"
    using assms
    by (simp add: current_path_def Let_def case_prod_beta sys_readlink_trace del: append.simps)
next
  assume f: "fault k (Readlink (''/proc/self/fd/'' @ show_int (fd (h_v h))) 32768) = None"
    and l: "links k (''/proc/self/fd/'' @ show_int (fd (h_v h))) = Some t"
    and m: "prefix '' (deleted)'' (take 32768 t) \<or> suffix '' (deleted)'' (take 32768 t)"
  define s where "s = take 32768 t"
  have r: "fst (sys_readlink k (''/proc/self/fd/'' @ show_int (fd (h_v h))) 32768) =
      (int (length s), s)"
    using f l by (simp add: sys_readlink_def Let_def s_def)
  from m have "prefix '' (deleted)'' s \<or> suffix '' (deleted)'' s"
    by (simp add: s_def)
  from marked_is_cleared [OF this] assms r
  show "fst (current_path h k) = Inr []"
    by (simp add: current_path_def Let_def case_prod_beta del: append.simps)
qed

theorem current_path_deleted_is_empty_witness:
  "32769 \<le> heap_limit ((kernel_with 0 no_faults)\<lparr>links := [''/proc/self/fd/3'' \<mapsto> ''/tmp/a (deleted)'']\<rparr>) \<and>
   suffix '' (deleted)'' (take 32768 ''/tmp/a (deleted)'') \<and>
   current_path (handle_with {file_disposition} all)
      ((kernel_with 0 no_faults)\<lparr>links := [''/proc/self/fd/3'' \<mapsto> ''/tmp/a (deleted)'']\<rparr>) =
     (Inr [], (kernel_with 0 no_faults)\<lparr>links := [''/proc/self/fd/3'' \<mapsto> ''/tmp/a (deleted)''],
        trace := [Readlink ''/proc/self/fd/3'' 32768]\<rparr>)"
proof -
  let ?k = "(kernel_with 0 no_faults)\<lparr>links := [''/proc/self/fd/3'' \<mapsto> ''/tmp/a (deleted)'']\<rparr>"
  let ?h = "handle_with {file_disposition} all"
  have p: "''/proc/self/fd/'' @ show_int (fd (h_v ?h)) = ''/proc/self/fd/3''"
    by (simp add: ex_defs show_int_def show_nat.simps)
  have heap: "32769 \<le> heap_limit ?k"
    by (simp add: ex_defs)
  have f: "fault ?k (Readlink (''/proc/self/fd/'' @ show_int (fd (h_v ?h))) 32768) = None"
    by (simp add: ex_defs fault_def)
  have l: "links ?k (''/proc/self/fd/'' @ show_int (fd (h_v ?h))) = Some ''/tmp/a (deleted)''"
    unfolding p by (simp add: ex_defs)
  have s: "suffix '' (deleted)'' (take 32768 ''/tmp/a (deleted)'')"
    by (simp add: suffix_def)
  have k': "snd (current_path ?h ?k) = ?k\<lparr>trace := [Readlink ''/proc/self/fd/3'' 32768]\<rparr>"
    by (simp add: current_path_def ex_defs sys_defs show_int_def show_nat.simps Let_def)
  from current_path_deleted_is_empty [OF heap, of ?h "''/tmp/a (deleted)''"] f l s
  have "fst (current_path ?h ?k) = Inr []"
    by blast
  with k' heap s show ?thesis
    by (simp add: prod_eq_iff)
qed

end
